theory Spec2Isabelle
  imports Complex_Main "HOL-Library.Word"
begin

section \<open>Data model (internal.h)\<close>

text \<open>
  Pointers and \<open>size_t\<close> are 64-bit words (an LP64 platform); the null pointer is the
  word 0. The enumerations of the public header (access mode, memory type, stream
  priority) are C ints. The result codes are the enumerators of \<open>gpuio_error_t\<close>
  that the sources name (log.c lists all of them).
\<close>

type_synonym ptr = "64 word"
type_synonym size_t = "64 word"
type_synonym byte = "8 word"

abbreviation (input) NULL :: ptr where
  "NULL \<equiv> 0"

definition MAP_FAILED :: ptr where
  "MAP_FAILED = - 1"

datatype gpuio_error_t =
    GPUIO_SUCCESS
  | GPUIO_ERROR_GENERAL
  | GPUIO_ERROR_NOMEM
  | GPUIO_ERROR_INVALID_ARG
  | GPUIO_ERROR_NOT_FOUND
  | GPUIO_ERROR_TIMEOUT
  | GPUIO_ERROR_IO
  | GPUIO_ERROR_NETWORK
  | GPUIO_ERROR_UNSUPPORTED
  | GPUIO_ERROR_PERMISSION
  | GPUIO_ERROR_BUSY
  | GPUIO_ERROR_CANCELED
  | GPUIO_ERROR_DEVICE_LOST
  | GPUIO_ERROR_ALREADY_INITIALIZED
  | GPUIO_ERROR_NOT_INITIALIZED

text \<open>
  \<open>memory_region_internal_t\<close>. The \<open>next\<close> link is not a field here: the chain
  \<open>ctx->regions\<close> is kept as the list of its nodes in link order, each node paired
  with its own address (the address is what the public handle holds).
\<close>

record memory_region_internal =
  base_addr :: ptr
  gpu_addr :: ptr
  bus_addr :: "64 word"
  length_f :: size_t
  type_f :: int
  access :: int
  gpu_id :: int
  registered :: bool
  is_pinned :: bool

text \<open>The public \<open>gpuio_memory_region_t\<close>, with the fields memory.c writes and reads.\<close>

record gpuio_memory_region =
  pub_base_addr :: ptr
  pub_gpu_addr :: ptr
  pub_bus_addr :: "64 word"
  pub_length :: size_t
  pub_access :: int
  pub_gpu_id :: int
  pub_registered :: bool
  pub_handle :: ptr

text \<open>\<open>stream_internal_t\<close> (the mutex is not modelled: one thread at a time).\<close>

record stream_internal =
  id_f :: int
  priority :: int
  vendor_stream :: ptr
  pending_requests :: ptr

text \<open>\<open>gpuio_stats_t\<close>, with the fields log.c updates.\<close>

record gpuio_stats =
  requests_submitted :: "64 word"
  requests_completed :: "64 word"
  requests_failed :: "64 word"
  bytes_read :: "64 word"
  bytes_written :: "64 word"
  bandwidth_gbps :: real

text \<open>
  \<open>struct gpuio_context\<close>, with the fields that memory.c, stream.c and the statistics
  functions of log.c read or write. The array \<open>streams\<close> is a map from index to
  stream pointer; \<open>num_streams\<close> is the C int beside it.
\<close>

record gpuio_context =
  initialized :: int
  current_device :: int
  regions :: "(ptr \<times> memory_region_internal) list"
  streams :: "int \<rightharpoonup> ptr"
  num_streams :: int
  stats :: gpuio_stats

text \<open>
  What lies outside the context: byte-addressed memory, the set of blocks handed out by
  the allocator (malloc, calloc, mmap) and not yet released, and the heap-allocated
  stream records by address. \<open>fault\<close> is set when the program writes through or
  releases an address that is not the live record it takes it for, which C leaves
  undefined; from then on the other components say nothing about the C program.
\<close>

record machine =
  bytes :: "ptr \<Rightarrow> byte"
  allocated :: "ptr set"
  stream_objs :: "ptr \<rightharpoonup> stream_internal"
  fault :: bool

text \<open>
  \<open>vendor_ops_t\<close>: a slot is \<open>None\<close> when the function pointer is null. A backend
  function is a function of the arguments it is passed; it returns its int and the new
  contents of what it is given a pointer to. The memory functions may change the
  machine (bytes and allocations). The three device slots are left out: their callers
  are in context.c.
\<close>

record vendor_ops =
  malloc_device :: "(gpuio_context \<Rightarrow> size_t \<Rightarrow> ptr \<Rightarrow> machine \<Rightarrow> int \<times> ptr \<times> machine) option"
  malloc_pinned :: "(gpuio_context \<Rightarrow> size_t \<Rightarrow> ptr \<Rightarrow> machine \<Rightarrow> int \<times> ptr \<times> machine) option"
  free :: "(gpuio_context \<Rightarrow> ptr \<Rightarrow> machine \<Rightarrow> int \<times> machine) option"
  memcpy :: "(gpuio_context \<Rightarrow> ptr \<Rightarrow> ptr \<Rightarrow> size_t \<Rightarrow> ptr \<Rightarrow> machine \<Rightarrow> int \<times> machine) option"
  register_memory :: "(gpuio_context \<Rightarrow> ptr \<Rightarrow> size_t \<Rightarrow> int \<Rightarrow> memory_region_internal
                        \<Rightarrow> int \<times> memory_region_internal) option"
  unregister_memory :: "(gpuio_context \<Rightarrow> ptr \<Rightarrow> int) option"
  stream_create :: "(gpuio_context \<Rightarrow> stream_internal \<Rightarrow> int \<Rightarrow> int \<times> stream_internal) option"
  stream_destroy :: "(gpuio_context \<Rightarrow> machine \<Rightarrow> ptr \<Rightarrow> int) option"
  stream_synchronize :: "(gpuio_context \<Rightarrow> machine \<Rightarrow> ptr \<Rightarrow> int) option"
  stream_query :: "(gpuio_context \<Rightarrow> machine \<Rightarrow> ptr \<Rightarrow> bool \<Rightarrow> int \<times> bool) option"
  event_create :: "(gpuio_context \<Rightarrow> ptr \<Rightarrow> int \<times> ptr) option"
  event_destroy :: "(gpuio_context \<Rightarrow> ptr \<Rightarrow> int) option"
  event_record :: "(gpuio_context \<Rightarrow> machine \<Rightarrow> ptr \<Rightarrow> ptr \<Rightarrow> int) option"
  event_synchronize :: "(gpuio_context \<Rightarrow> ptr \<Rightarrow> int) option"
  event_elapsed_time :: "(gpuio_context \<Rightarrow> ptr \<Rightarrow> ptr \<Rightarrow> real \<Rightarrow> int \<times> real) option"

text \<open>
  The test \<open>current_vendor_ops && current_vendor_ops->f\<close>: the global table pointer is
  the \<open>vendor_ops option\<close> every operation takes first.
\<close>

definition slot :: "(vendor_ops \<Rightarrow> 'a option) \<Rightarrow> vendor_ops option \<Rightarrow> 'a option" where
  "slot f current_vendor_ops = (case current_vendor_ops of None \<Rightarrow> None | Some t \<Rightarrow> f t)"

section \<open>The C library\<close>

text \<open>
  The allocator's choice is an argument (\<open>NULL\<close> when it fails); \<open>c_alloc\<close> records
  the block, \<open>c_free\<close> releases it. \<open>c_memcpy n dst src\<close> copies n bytes in ascending
  order.
\<close>

definition c_alloc :: "ptr \<Rightarrow> machine \<Rightarrow> machine" where
  "c_alloc p m = (if p = NULL then m else m\<lparr>allocated := insert p (allocated m)\<rparr>)"

definition c_free :: "ptr \<Rightarrow> machine \<Rightarrow> machine" where
  "c_free p m = (if p = NULL then m else m\<lparr>allocated := allocated m - {p}\<rparr>)"

primrec c_memcpy :: "nat \<Rightarrow> ptr \<Rightarrow> ptr \<Rightarrow> (ptr \<Rightarrow> byte) \<Rightarrow> (ptr \<Rightarrow> byte)" where
  "c_memcpy 0 dst src b = b"
| "c_memcpy (Suc n) dst src b =
     (let b' = c_memcpy n dst src b
      in b'(dst + of_nat n := b' (src + of_nat n)))"

section \<open>Memory management (memory.c)\<close>

text \<open>
  An out-parameter \<open>void** ptr\<close> is a \<open>ptr option\<close>: \<open>None\<close> for a null pointer,
  \<open>Some v\<close> for a valid one whose target holds v; the operation returns the new
  content. A context argument is a \<open>gpuio_context option\<close> in the same way. Log output
  is not part of the state.
\<close>

definition gpuio_malloc ::
  "gpuio_context option \<Rightarrow> size_t \<Rightarrow> ptr option \<Rightarrow> ptr \<Rightarrow> machine
     \<Rightarrow> gpuio_error_t \<times> ptr option \<times> machine" where
  "gpuio_malloc ctx sz ptr malloc_result m =
     (if ctx = None \<or> ptr = None then (GPUIO_ERROR_INVALID_ARG, ptr, m)
      else if initialized (the ctx) = 0 then (GPUIO_ERROR_NOT_INITIALIZED, ptr, m)
      else if malloc_result = NULL then (GPUIO_ERROR_NOMEM, Some NULL, m)
      else (GPUIO_SUCCESS, Some malloc_result, c_alloc malloc_result m))"

definition gpuio_malloc_pinned ::
  "vendor_ops option \<Rightarrow> gpuio_context option \<Rightarrow> size_t \<Rightarrow> ptr option \<Rightarrow> ptr \<Rightarrow> machine
     \<Rightarrow> gpuio_error_t \<times> ptr option \<times> machine" where
  "gpuio_malloc_pinned ops ctx sz ptr mmap_result m =
     (if ctx = None \<or> ptr = None then (GPUIO_ERROR_INVALID_ARG, ptr, m)
      else if initialized (the ctx) = 0 then (GPUIO_ERROR_NOT_INITIALIZED, ptr, m)
      else
        let (ret, p1, m1) =
              (case slot malloc_pinned ops of
                 Some f \<Rightarrow> f (the ctx) sz (the ptr) m
               | None \<Rightarrow> (- 1, the ptr, m))
        in if slot malloc_pinned ops \<noteq> None \<and> ret = 0 then (GPUIO_SUCCESS, Some p1, m1)
           else if mmap_result = MAP_FAILED then (GPUIO_ERROR_NOMEM, Some NULL, m1)
           else (GPUIO_SUCCESS, Some mmap_result, c_alloc mmap_result m1))"

definition gpuio_malloc_device ::
  "vendor_ops option \<Rightarrow> gpuio_context option \<Rightarrow> size_t \<Rightarrow> ptr option \<Rightarrow> ptr \<Rightarrow> machine
     \<Rightarrow> gpuio_error_t \<times> ptr option \<times> machine" where
  "gpuio_malloc_device ops ctx sz ptr mmap_result m =
     (if ctx = None \<or> ptr = None then (GPUIO_ERROR_INVALID_ARG, ptr, m)
      else if initialized (the ctx) = 0 then (GPUIO_ERROR_NOT_INITIALIZED, ptr, m)
      else
        let (ret, p1, m1) =
              (case slot malloc_device ops of
                 Some f \<Rightarrow> f (the ctx) sz (the ptr) m
               | None \<Rightarrow> (- 1, the ptr, m))
        in if slot malloc_device ops \<noteq> None \<and> ret = 0 then (GPUIO_SUCCESS, Some p1, m1)
           else gpuio_malloc_pinned ops ctx sz (Some p1) mmap_result m1)"

definition gpuio_malloc_unified ::
  "vendor_ops option \<Rightarrow> gpuio_context option \<Rightarrow> size_t \<Rightarrow> ptr option \<Rightarrow> ptr \<Rightarrow> machine
     \<Rightarrow> gpuio_error_t \<times> ptr option \<times> machine" where
  "gpuio_malloc_unified ops ctx sz ptr mmap_result m =
     (if ctx = None \<or> ptr = None then (GPUIO_ERROR_INVALID_ARG, ptr, m)
      else if initialized (the ctx) = 0 then (GPUIO_ERROR_NOT_INITIALIZED, ptr, m)
      else if slot malloc_device ops \<noteq> None
        then gpuio_malloc_device ops ctx sz ptr mmap_result m
      else (GPUIO_ERROR_UNSUPPORTED, ptr, m))"

text \<open>The scan of \<open>gpuio_free\<close>: is there a node whose \<open>base_addr\<close> is the pointer?\<close>

fun region_scan :: "(ptr \<times> memory_region_internal) list \<Rightarrow> ptr \<Rightarrow> bool" where
  "region_scan [] p = False"
| "region_scan (region # rest) p =
     (if base_addr (snd region) = p then True else region_scan rest p)"

definition gpuio_free ::
  "vendor_ops option \<Rightarrow> gpuio_context option \<Rightarrow> ptr \<Rightarrow> machine \<Rightarrow> gpuio_error_t \<times> machine" where
  "gpuio_free ops ctx ptr m =
     (if ctx = None then (GPUIO_ERROR_INVALID_ARG, m)
      else if initialized (the ctx) = 0 then (GPUIO_ERROR_NOT_INITIALIZED, m)
      else if ptr = NULL then (GPUIO_SUCCESS, m)
      else if region_scan (regions (the ctx)) ptr then (GPUIO_ERROR_BUSY, m)
      else
        (case slot free ops of
           Some f \<Rightarrow>
             (let (ret, m1) = f (the ctx) ptr m
              in if ret = 0 then (GPUIO_SUCCESS, m1) else (GPUIO_SUCCESS, c_free ptr m1))
         | None \<Rightarrow> (GPUIO_SUCCESS, c_free ptr m)))"

text \<open>What calloc returns: every field zero.\<close>

definition zero_region :: memory_region_internal where
  "zero_region = \<lparr>base_addr = NULL, gpu_addr = NULL, bus_addr = 0, length_f = 0, type_f = 0,
     access = 0, gpu_id = 0, registered = False, is_pinned = False\<rparr>"

definition gpuio_register_memory ::
  "vendor_ops option \<Rightarrow> gpuio_context option \<Rightarrow> ptr \<Rightarrow> size_t \<Rightarrow> int
     \<Rightarrow> gpuio_memory_region option \<Rightarrow> ptr \<Rightarrow> machine
     \<Rightarrow> gpuio_error_t \<times> gpuio_context option \<times> gpuio_memory_region option \<times> machine" where
  "gpuio_register_memory ops ctx ptr sz acc region calloc_result m =
     (if ctx = None \<or> region = None then (GPUIO_ERROR_INVALID_ARG, ctx, region, m)
      else if initialized (the ctx) = 0 then (GPUIO_ERROR_NOT_INITIALIZED, ctx, region, m)
      else if ptr = NULL \<or> sz = 0 then (GPUIO_ERROR_INVALID_ARG, ctx, region, m)
      else if calloc_result = NULL then (GPUIO_ERROR_NOMEM, ctx, region, m)
      else
        let m1 = c_alloc calloc_result m;
            internal = zero_region\<lparr>base_addr := ptr, length_f := sz, access := acc,
                         gpu_id := current_device (the ctx), registered := True\<rparr>;
            vendor =
              (case slot register_memory ops of
                 Some f \<Rightarrow>
                   (let (ret, internal') = f (the ctx) ptr sz acc internal
                    in if ret \<noteq> 0 then None else Some internal')
               | None \<Rightarrow> Some (internal\<lparr>gpu_addr := ptr, bus_addr := ptr\<rparr>))
        in case vendor of
             None \<Rightarrow> (GPUIO_ERROR_GENERAL, ctx, region, c_free calloc_result m1)
           | Some internal \<Rightarrow>
               (GPUIO_SUCCESS,
                Some ((the ctx)\<lparr>regions := (calloc_result, internal) # regions (the ctx)\<rparr>),
                Some ((the region)\<lparr>pub_base_addr := base_addr internal,
                        pub_gpu_addr := gpu_addr internal,
                        pub_bus_addr := bus_addr internal,
                        pub_length := length_f internal,
                        pub_access := access internal,
                        pub_gpu_id := gpu_id internal,
                        pub_registered := True,
                        pub_handle := calloc_result\<rparr>),
                m1))"

text \<open>
  The unlink loop of \<open>gpuio_unregister_memory\<close>: the first node whose address is the
  handle is taken out; when there is none the chain is left as it is.
\<close>

fun unlink :: "(ptr \<times> memory_region_internal) list \<Rightarrow> ptr
    \<Rightarrow> (ptr \<times> memory_region_internal) list" where
  "unlink [] internal = []"
| "unlink (current # rest) internal =
     (if fst current = internal then rest else current # unlink rest internal)"

text \<open>
  After the loop the function writes \<open>internal->registered\<close> through the handle and
  frees it, whether or not the loop found a node. A region record is live exactly while
  it is a node of the chain: \<open>gpuio_register_memory\<close> links every record it hands
  out, and only this function releases one. For a handle that is a node the record is
  released; for any other non-null handle the write and the free act on something that
  is not a live region record (a second unregistration frees the same block twice), and
  the machine is marked with \<open>fault\<close>.
\<close>

definition release_record ::
  "(ptr \<times> memory_region_internal) list \<Rightarrow> ptr \<Rightarrow> machine \<Rightarrow> machine" where
  "release_record chain internal m =
     (if internal \<in> fst ` set chain then c_free internal m
      else (c_free internal m)\<lparr>fault := True\<rparr>)"

text \<open>
  The backend's unregister hook is called and its result dropped; the record is
  released right after, so the call leaves nothing in this state.
\<close>

definition gpuio_unregister_memory ::
  "vendor_ops option \<Rightarrow> gpuio_context option \<Rightarrow> gpuio_memory_region option \<Rightarrow> machine
     \<Rightarrow> gpuio_error_t \<times> gpuio_context option \<times> gpuio_memory_region option \<times> machine" where
  "gpuio_unregister_memory ops ctx region m =
     (if ctx = None \<or> region = None then (GPUIO_ERROR_INVALID_ARG, ctx, region, m)
      else if initialized (the ctx) = 0 then (GPUIO_ERROR_NOT_INITIALIZED, ctx, region, m)
      else
        let internal = pub_handle (the region)
        in if internal = NULL then (GPUIO_ERROR_INVALID_ARG, ctx, region, m)
           else
             let ctx1 = (the ctx)\<lparr>regions := unlink (regions (the ctx)) internal\<rparr>;
                 dropped = (case slot unregister_memory ops of
                              Some f \<Rightarrow> f ctx1 internal | None \<Rightarrow> 0)
             in (GPUIO_SUCCESS, Some ctx1, Some ((the region)\<lparr>pub_registered := False\<rparr>),
                 release_record (regions (the ctx)) internal m))"

definition gpuio_memcpy ::
  "vendor_ops option \<Rightarrow> gpuio_context option \<Rightarrow> ptr \<Rightarrow> ptr \<Rightarrow> size_t \<Rightarrow> ptr \<Rightarrow> machine
     \<Rightarrow> gpuio_error_t \<times> gpuio_context option \<times> machine" where
  "gpuio_memcpy ops ctx dst src sz stream m =
     (if ctx = None then (GPUIO_ERROR_INVALID_ARG, ctx, m)
      else if initialized (the ctx) = 0 then (GPUIO_ERROR_NOT_INITIALIZED, ctx, m)
      else if dst = NULL \<or> src = NULL then (GPUIO_ERROR_INVALID_ARG, ctx, m)
      else
        let counted = (the ctx)\<lparr>stats := (stats (the ctx))
                        \<lparr>bytes_written := bytes_written (stats (the ctx)) + sz\<rparr>\<rparr>;
            (ret, m1) =
              (case slot memcpy ops of
                 Some f \<Rightarrow> f (the ctx) dst src sz stream m
               | None \<Rightarrow> (- 1, m))
        in if slot memcpy ops \<noteq> None \<and> ret = 0 then (GPUIO_SUCCESS, Some counted, m1)
           else (GPUIO_SUCCESS, Some counted,
                 m1\<lparr>bytes := c_memcpy (unat sz) dst src (bytes m1)\<rparr>))"

definition gpuio_memcpy_async ::
  "vendor_ops option \<Rightarrow> gpuio_context option \<Rightarrow> ptr \<Rightarrow> ptr \<Rightarrow> size_t \<Rightarrow> ptr \<Rightarrow> machine
     \<Rightarrow> gpuio_error_t \<times> gpuio_context option \<times> machine" where
  "gpuio_memcpy_async ops ctx dst src sz stream m = gpuio_memcpy ops ctx dst src sz stream m"

section \<open>Streams and events (stream.c)\<close>

definition zero_stream :: stream_internal where
  "zero_stream = \<lparr>id_f = 0, priority = 0, vendor_stream = NULL, pending_requests = NULL\<rparr>"

text \<open>
  \<open>calloc_result\<close> is the address calloc returns for the record, \<open>realloc_ok\<close> says
  whether growing the array succeeded. The record is written to the store of stream
  records once it is complete. \<open>num_streams\<close> is an unbounded int here: the C agrees
  with it below \<open>INT_MAX\<close> streams.
\<close>

definition gpuio_stream_create ::
  "vendor_ops option \<Rightarrow> gpuio_context option \<Rightarrow> ptr option \<Rightarrow> int \<Rightarrow> ptr \<Rightarrow> bool \<Rightarrow> machine
     \<Rightarrow> gpuio_error_t \<times> gpuio_context option \<times> ptr option \<times> machine" where
  "gpuio_stream_create ops ctx stream prio calloc_result realloc_ok m =
     (if ctx = None \<or> stream = None then (GPUIO_ERROR_INVALID_ARG, ctx, stream, m)
      else if initialized (the ctx) = 0 then (GPUIO_ERROR_NOT_INITIALIZED, ctx, stream, m)
      else if calloc_result = NULL then (GPUIO_ERROR_NOMEM, ctx, stream, m)
      else
        let m1 = c_alloc calloc_result m;
            internal = zero_stream\<lparr>priority := prio\<rparr>;
            vendor =
              (case slot stream_create ops of
                 Some f \<Rightarrow>
                   (let (ret, internal') = f (the ctx) internal prio
                    in if ret \<noteq> 0 then None else Some internal')
               | None \<Rightarrow> Some internal)
        in case vendor of
             None \<Rightarrow> (GPUIO_ERROR_GENERAL, ctx, stream, c_free calloc_result m1)
           | Some internal \<Rightarrow>
               (let stream_id = num_streams (the ctx)
                in if \<not> realloc_ok
                   then
                     (let dropped = (case slot stream_destroy ops of
                                       Some f \<Rightarrow> f (the ctx) m1 calloc_result | None \<Rightarrow> 0)
                      in (GPUIO_ERROR_NOMEM, ctx, stream, c_free calloc_result m1))
                   else
                     (GPUIO_SUCCESS,
                      Some ((the ctx)\<lparr>streams := (streams (the ctx))(stream_id \<mapsto> calloc_result),
                              num_streams := stream_id + 1\<rparr>),
                      Some calloc_result,
                      m1\<lparr>stream_objs :=
                           (stream_objs m1)(calloc_result \<mapsto> internal\<lparr>id_f := stream_id\<rparr>)\<rparr>)))"

text \<open>
  The function ends in \<open>return GPUPIO_SUCCESS\<close>, an identifier that none of the
  source files at hand declares (gpuio.h is not among them): the value returned there
  is the first argument. The record is marked with id -1 and released, so it leaves the
  store; the array of the context is not touched.
\<close>

definition gpuio_stream_destroy ::
  "gpuio_error_t \<Rightarrow> vendor_ops option \<Rightarrow> gpuio_context option \<Rightarrow> ptr \<Rightarrow> machine
     \<Rightarrow> gpuio_error_t \<times> machine" where
  "gpuio_stream_destroy GPUPIO_SUCCESS ops ctx stream m =
     (if ctx = None \<or> stream = NULL then (GPUIO_ERROR_INVALID_ARG, m)
      else if initialized (the ctx) = 0 then (GPUIO_ERROR_NOT_INITIALIZED, m)
      else
        let dropped = (case slot stream_destroy ops of
                         Some f \<Rightarrow> f (the ctx) m stream | None \<Rightarrow> 0);
            m1 = m\<lparr>stream_objs :=
                      (stream_objs m)(stream := map_option (\<lambda>s. s\<lparr>id_f := - 1\<rparr>) (stream_objs m stream))\<rparr>
        in (GPUPIO_SUCCESS, c_free stream (m1\<lparr>stream_objs := (stream_objs m1)(stream := None)\<rparr>)))"

text \<open>
  Creating streams one after the other: each request gives the address calloc returns
  for the record and the priority; growing the array succeeds. The result is the list
  of handles written through the caller's pointer, with the final context and machine;
  it is \<open>None\<close> as soon as one creation does not return success.
\<close>

fun create_streams ::
  "vendor_ops option \<Rightarrow> (ptr \<times> int) list \<Rightarrow> gpuio_context \<Rightarrow> machine
     \<Rightarrow> (ptr list \<times> gpuio_context \<times> machine) option" where
  "create_streams ops [] c m = Some ([], c, m)"
| "create_streams ops ((calloc_result, prio) # rest) c m =
     (case gpuio_stream_create ops (Some c) (Some NULL) prio calloc_result True m of
        (e, Some c1, Some stream, m1) \<Rightarrow>
          if e = GPUIO_SUCCESS
          then (case create_streams ops rest c1 m1 of
                  Some (handles, c2, m2) \<Rightarrow> Some (stream # handles, c2, m2)
                | None \<Rightarrow> None)
          else None
      | _ \<Rightarrow> None)"


text \<open>
  With a null stream every slot of the array below \<open>num_streams\<close> that holds a live
  record with id at least 0 is handed to the backend; the results are dropped. The slot
  of a destroyed stream still holds the address of its released record, and the C reads
  the id there, which is undefined: \<open>sync_all\<close> passes over such a slot, so it
  stands for the C loop only while no stream of the array has been destroyed.
\<close>

definition sync_all :: "vendor_ops option \<Rightarrow> gpuio_context \<Rightarrow> machine \<Rightarrow> int list" where
  "sync_all ops c m =
     concat (map (\<lambda>i.
       (case streams c (int i) of
          None \<Rightarrow> []
        | Some s \<Rightarrow>
            (case stream_objs m s of
               None \<Rightarrow> []
             | Some r \<Rightarrow>
                 if s \<noteq> NULL \<and> id_f r \<ge> 0
                 then (case slot stream_synchronize ops of Some f \<Rightarrow> [f c m s] | None \<Rightarrow> [])
                 else []))) [0 ..< nat (num_streams c)])"

definition gpuio_stream_synchronize ::
  "vendor_ops option \<Rightarrow> gpuio_context option \<Rightarrow> ptr \<Rightarrow> machine \<Rightarrow> gpuio_error_t" where
  "gpuio_stream_synchronize ops ctx stream m =
     (if ctx = None then GPUIO_ERROR_INVALID_ARG
      else if initialized (the ctx) = 0 then GPUIO_ERROR_NOT_INITIALIZED
      else if stream = NULL
        then (let dropped = sync_all ops (the ctx) m in GPUIO_SUCCESS)
      else
        (case slot stream_synchronize ops of
           Some f \<Rightarrow> if f (the ctx) m stream \<noteq> 0 then GPUIO_ERROR_GENERAL else GPUIO_SUCCESS
         | None \<Rightarrow> GPUIO_SUCCESS))"

definition gpuio_stream_query ::
  "vendor_ops option \<Rightarrow> gpuio_context option \<Rightarrow> ptr \<Rightarrow> bool option \<Rightarrow> machine
     \<Rightarrow> gpuio_error_t \<times> bool option" where
  "gpuio_stream_query ops ctx stream idle m =
     (if ctx = None \<or> stream = NULL \<or> idle = None then (GPUIO_ERROR_INVALID_ARG, idle)
      else if initialized (the ctx) = 0 then (GPUIO_ERROR_NOT_INITIALIZED, idle)
      else
        (case slot stream_query ops of
           Some f \<Rightarrow>
             (let (ret, idle') = f (the ctx) m stream (the idle)
              in if ret \<noteq> 0 then (GPUIO_ERROR_GENERAL, Some idle') else (GPUIO_SUCCESS, Some idle'))
         | None \<Rightarrow> (GPUIO_SUCCESS, Some True)))"

text \<open>An event handle is the address of its calloc'ed \<open>struct gpuio_event\<close>.\<close>

definition gpuio_event_create ::
  "vendor_ops option \<Rightarrow> gpuio_context option \<Rightarrow> ptr option \<Rightarrow> ptr \<Rightarrow> machine
     \<Rightarrow> gpuio_error_t \<times> ptr option \<times> machine" where
  "gpuio_event_create ops ctx event calloc_result m =
     (if ctx = None \<or> event = None then (GPUIO_ERROR_INVALID_ARG, event, m)
      else if initialized (the ctx) = 0 then (GPUIO_ERROR_NOT_INITIALIZED, event, m)
      else if calloc_result = NULL then (GPUIO_ERROR_NOMEM, event, m)
      else
        let m1 = c_alloc calloc_result m
        in (case slot event_create ops of
              Some f \<Rightarrow>
                (let (ret, ev) = f (the ctx) calloc_result
                 in if ret \<noteq> 0 then (GPUIO_ERROR_GENERAL, event, c_free ev m1)
                    else (GPUIO_SUCCESS, Some ev, m1))
            | None \<Rightarrow> (GPUIO_SUCCESS, Some calloc_result, m1)))"

definition gpuio_event_destroy ::
  "vendor_ops option \<Rightarrow> gpuio_context option \<Rightarrow> ptr \<Rightarrow> machine \<Rightarrow> gpuio_error_t \<times> machine" where
  "gpuio_event_destroy ops ctx event m =
     (if ctx = None \<or> event = NULL then (GPUIO_ERROR_INVALID_ARG, m)
      else if initialized (the ctx) = 0 then (GPUIO_ERROR_NOT_INITIALIZED, m)
      else
        let dropped = (case slot event_destroy ops of
                         Some f \<Rightarrow> f (the ctx) event | None \<Rightarrow> 0)
        in (GPUIO_SUCCESS, c_free event m))"

definition gpuio_event_record ::
  "vendor_ops option \<Rightarrow> gpuio_context option \<Rightarrow> ptr \<Rightarrow> ptr \<Rightarrow> machine \<Rightarrow> gpuio_error_t" where
  "gpuio_event_record ops ctx event stream m =
     (if ctx = None \<or> event = NULL \<or> stream = NULL then GPUIO_ERROR_INVALID_ARG
      else if initialized (the ctx) = 0 then GPUIO_ERROR_NOT_INITIALIZED
      else
        (case slot event_record ops of
           Some f \<Rightarrow> if f (the ctx) m event stream \<noteq> 0 then GPUIO_ERROR_GENERAL else GPUIO_SUCCESS
         | None \<Rightarrow> GPUIO_SUCCESS))"

definition gpuio_event_synchronize ::
  "vendor_ops option \<Rightarrow> gpuio_context option \<Rightarrow> ptr \<Rightarrow> gpuio_error_t" where
  "gpuio_event_synchronize ops ctx event =
     (if ctx = None \<or> event = NULL then GPUIO_ERROR_INVALID_ARG
      else if initialized (the ctx) = 0 then GPUIO_ERROR_NOT_INITIALIZED
      else
        (case slot event_synchronize ops of
           Some f \<Rightarrow> if f (the ctx) event \<noteq> 0 then GPUIO_ERROR_GENERAL else GPUIO_SUCCESS
         | None \<Rightarrow> GPUIO_SUCCESS))"

definition gpuio_event_elapsed_time ::
  "vendor_ops option \<Rightarrow> gpuio_context option \<Rightarrow> ptr \<Rightarrow> ptr \<Rightarrow> real option
     \<Rightarrow> gpuio_error_t \<times> real option" where
  "gpuio_event_elapsed_time ops ctx start end_ev ms =
     (if ctx = None \<or> start = NULL \<or> end_ev = NULL \<or> ms = None then (GPUIO_ERROR_INVALID_ARG, ms)
      else if initialized (the ctx) = 0 then (GPUIO_ERROR_NOT_INITIALIZED, ms)
      else
        (case slot event_elapsed_time ops of
           Some f \<Rightarrow>
             (let (ret, ms') = f (the ctx) start end_ev (the ms)
              in if ret \<noteq> 0 then (GPUIO_ERROR_GENERAL, Some ms') else (GPUIO_SUCCESS, Some ms'))
         | None \<Rightarrow> (GPUIO_SUCCESS, Some 0)))"

section \<open>Statistics (log.c)\<close>

definition zero_stats :: gpuio_stats where
  "zero_stats = \<lparr>requests_submitted = 0, requests_completed = 0, requests_failed = 0,
     bytes_read = 0, bytes_written = 0, bandwidth_gbps = 0\<rparr>"

definition gpuio_get_stats ::
  "gpuio_context option \<Rightarrow> gpuio_stats option \<Rightarrow> gpuio_error_t \<times> gpuio_stats option" where
  "gpuio_get_stats ctx stats_out =
     (if ctx = None \<or> stats_out = None then (GPUIO_ERROR_INVALID_ARG, stats_out)
      else if initialized (the ctx) = 0 then (GPUIO_ERROR_NOT_INITIALIZED, stats_out)
      else (GPUIO_SUCCESS, Some (stats (the ctx))))"

definition gpuio_reset_stats ::
  "gpuio_context option \<Rightarrow> gpuio_error_t \<times> gpuio_context option" where
  "gpuio_reset_stats ctx =
     (if ctx = None then (GPUIO_ERROR_INVALID_ARG, ctx)
      else if initialized (the ctx) = 0 then (GPUIO_ERROR_NOT_INITIALIZED, ctx)
      else (GPUIO_SUCCESS, Some ((the ctx)\<lparr>stats := zero_stats\<rparr>)))"

section \<open>Example inputs\<close>

text \<open>
  An initialized context with empty registries, a machine with nothing allocated, a
  caller's region structure, a backend table with every slot null, and a backend whose
  registration hook always fails.
\<close>

definition ctx0 :: gpuio_context where
  "ctx0 = \<lparr>initialized = 1, current_device = 0, regions = [], streams = Map.empty,
     num_streams = 0, stats = zero_stats\<rparr>"

definition machine0 :: machine where
  "machine0 = \<lparr>bytes = (\<lambda>a. 0), allocated = {}, stream_objs = Map.empty, fault = False\<rparr>"

definition region0 :: gpuio_memory_region where
  "region0 = \<lparr>pub_base_addr = NULL, pub_gpu_addr = NULL, pub_bus_addr = 0, pub_length = 0,
     pub_access = 0, pub_gpu_id = 0, pub_registered = False, pub_handle = NULL\<rparr>"

definition empty_ops :: vendor_ops where
  "empty_ops = \<lparr>malloc_device = None, malloc_pinned = None, free = None, memcpy = None,
     register_memory = None, unregister_memory = None, stream_create = None,
     stream_destroy = None, stream_synchronize = None, stream_query = None,
     event_create = None, event_destroy = None, event_record = None,
     event_synchronize = None, event_elapsed_time = None\<rparr>"

definition failing_register :: "gpuio_context \<Rightarrow> ptr \<Rightarrow> size_t \<Rightarrow> int \<Rightarrow> memory_region_internal
    \<Rightarrow> int \<times> memory_region_internal" where
  "failing_register c p sz acc internal = (- 1, internal)"

definition failing_ops :: vendor_ops where
  "failing_ops = empty_ops\<lparr>register_memory := Some failing_register\<rparr>"

definition region_at :: "ptr \<Rightarrow> memory_region_internal" where
  "region_at p = zero_region\<lparr>base_addr := p, gpu_addr := p, bus_addr := p, length_f := 16,
     registered := True\<rparr>"

text \<open>The same buffer registered twice, and registered once.\<close>

definition ctx_dup :: gpuio_context where
  "ctx_dup = ctx0\<lparr>regions := [(8192, region_at 4096), (12288, region_at 4096)]\<rparr>"

definition ctx_one :: gpuio_context where
  "ctx_one = ctx0\<lparr>regions := [(8192, region_at 4096)]\<rparr>"

text \<open>
  A context that is not initialized but has a region registered at address 4096, a
  machine with two distinct bytes at 8192 and 8193, and three streams created in the
  empty context.
\<close>

definition ctx_uninit :: gpuio_context where
  "ctx_uninit = ctx_one\<lparr>initialized := 0\<rparr>"

definition machine_src :: machine where
  "machine_src = machine0\<lparr>bytes := (\<lambda>a. if a = 8192 then 17 else if a = 8193 then 34 else 0)\<rparr>"

definition three_streams :: "(ptr list \<times> gpuio_context \<times> machine) option" where
  "three_streams = create_streams None [(8192, 0), (12288, 1), (16384, 0)] ctx0 machine0"

text \<open>
  A region registered in the empty context, unregistered, and unregistered a second time
  with the structure the first unregistration left to the caller.
\<close>

definition registered_once ::
  "gpuio_error_t \<times> gpuio_context option \<times> gpuio_memory_region option \<times> machine" where
  "registered_once =
     gpuio_register_memory None (Some ctx0) 4096 16 0 (Some region0) 8192 machine0"

definition unregistered_once ::
  "gpuio_error_t \<times> gpuio_context option \<times> gpuio_memory_region option \<times> machine" where
  "unregistered_once =
     gpuio_unregister_memory None (fst (snd registered_once)) (fst (snd (snd registered_once)))
       (snd (snd (snd registered_once)))"

definition unregistered_twice ::
  "gpuio_error_t \<times> gpuio_context option \<times> gpuio_memory_region option \<times> machine" where
  "unregistered_twice =
     gpuio_unregister_memory None (fst (snd unregistered_once)) (fst (snd (snd unregistered_once)))
       (snd (snd (snd unregistered_once)))"

section \<open>Properties\<close>

subsection \<open>The region chain\<close>

lemma unlink_absent: "h \<notin> fst ` set rs \<Longrightarrow> unlink rs h = rs"
  by (induction rs) auto



lemma register_success_shape:
  assumes "gpuio_register_memory ops (Some c) ptr sz acc (Some r) calloc_result m
             = (GPUIO_SUCCESS, ctx1, region1, m1)"
  shows "\<exists>i r1. ctx1 = Some (c\<lparr>regions := (calloc_result, i) # regions c\<rparr>)
           \<and> region1 = Some r1 \<and> pub_handle r1 = calloc_result \<and> calloc_result \<noteq> NULL
           \<and> initialized c \<noteq> 0"
  using assms
  by (auto simp add: gpuio_register_memory_def Let_def split: if_splits option.splits prod.splits)

subsection \<open>Registration\<close>

text \<open>
  C1, as stated, fails: with the registration slot absent, \<open>gpuio_register_memory\<close>
  takes its software fallback, returns success and puts the region at the head of the
  chain.
\<close>

theorem register_absent_slot_counterexample:
  "fst (gpuio_register_memory (Some empty_ops) (Some ctx0) 4096 16 0 (Some region0) 8192 machine0)
     = GPUIO_SUCCESS
   \<and> map fst (regions (the (fst (snd (gpuio_register_memory (Some empty_ops) (Some ctx0) 4096 16 0
        (Some region0) 8192 machine0))))) = [8192]"
  by (simp add: gpuio_register_memory_def slot_def empty_ops_def ctx0_def)

text \<open>
  C1, amended: in an initialized context, with a non-null pointer, a non-zero size and a
  record from calloc, registration fails with the general error and leaves the context
  and the caller's region as they were when the registration slot is present and its
  call returns non-zero; when the table or the slot is absent the call succeeds and the
  region, with the pointer as its device and bus address, is the new head of the chain.
\<close>

theorem register_vendor_policy:
  assumes "initialized c \<noteq> 0" and "ptr \<noteq> NULL" and "sz \<noteq> 0" and "calloc_result \<noteq> NULL"
  shows "(slot register_memory ops = Some f
            \<and> fst (f c ptr sz acc (zero_region\<lparr>base_addr := ptr, length_f := sz, access := acc,
                         gpu_id := current_device c, registered := True\<rparr>)) \<noteq> 0
          \<longrightarrow> gpuio_register_memory ops (Some c) ptr sz acc (Some r) calloc_result m
               = (GPUIO_ERROR_GENERAL, Some c, Some r, c_free calloc_result (c_alloc calloc_result m)))
       \<and> (slot register_memory ops = None
          \<longrightarrow> fst (gpuio_register_memory ops (Some c) ptr sz acc (Some r) calloc_result m) = GPUIO_SUCCESS
              \<and> fst (snd (gpuio_register_memory ops (Some c) ptr sz acc (Some r) calloc_result m))
                = Some (c\<lparr>regions := (calloc_result,
                     zero_region\<lparr>base_addr := ptr, length_f := sz, access := acc,
                         gpu_id := current_device c, registered := True, gpu_addr := ptr, bus_addr := ptr\<rparr>)
                     # regions c\<rparr>))"
  using assms by (auto simp add: gpuio_register_memory_def Let_def split: prod.splits)

theorem register_vendor_policy_witness:
  "gpuio_register_memory (Some failing_ops) (Some ctx0) 4096 16 0 (Some region0) 8192 machine0
     = (GPUIO_ERROR_GENERAL, Some ctx0, Some region0, machine0)
   \<and> fst (gpuio_register_memory None (Some ctx0) 4096 16 0 (Some region0) 8192 machine0)
     = GPUIO_SUCCESS
   \<and> map fst (regions (the (fst (snd
        (gpuio_register_memory None (Some ctx0) 4096 16 0 (Some region0) 8192 machine0))))) = [8192]"
proof -
  have i: "initialized ctx0 \<noteq> 0" by (simp add: ctx0_def)
  have p: "(4096 :: ptr) \<noteq> NULL" "(16 :: size_t) \<noteq> 0" "(8192 :: ptr) \<noteq> NULL" by simp_all
  have a: "slot register_memory (Some failing_ops) = Some failing_register"
    by (simp add: slot_def failing_ops_def)
  have b: "fst (failing_register ctx0 4096 16 0
             (zero_region\<lparr>base_addr := 4096, length_f := 16, access := 0,
                gpu_id := current_device ctx0, registered := True\<rparr>)) \<noteq> 0"
    by (simp add: failing_register_def)
  have n: "slot register_memory None = None" by (simp add: slot_def)
  have m: "c_free 8192 (c_alloc 8192 machine0) = machine0"
    by (simp add: c_free_def c_alloc_def machine0_def)
  show ?thesis
    using a b n m
      register_vendor_policy [OF i p, of "Some failing_ops" failing_register 0 region0 machine0]
      register_vendor_policy [OF i p, of None failing_register 0 region0 machine0]
    by (simp add: ctx0_def)
qed

text \<open>
  C2: a handle that is not in the region chain should get invalid-argument and leave the
  chain as it is. The code does not do that. Here a region is registered and
  unregistered, which succeeds and leaves the chain empty and the handle 8192 in the
  caller's structure; that handle is now unknown to the context. Unregistering with it
  again does not return invalid-argument: the function goes on to write through the
  handle and to free it a second time, and the machine ends in \<open>fault\<close>.
\<close>

theorem unregister_stale_handle:
  "fst registered_once = GPUIO_SUCCESS
   \<and> fst unregistered_once = GPUIO_SUCCESS
   \<and> regions (the (fst (snd unregistered_once))) = []
   \<and> pub_handle (the (fst (snd (snd unregistered_once)))) = 8192
   \<and> \<not> fault (snd (snd (snd unregistered_once)))
   \<and> fst unregistered_twice \<noteq> GPUIO_ERROR_INVALID_ARG
   \<and> fault (snd (snd (snd unregistered_twice)))"
  by (simp add: unregistered_twice_def unregistered_once_def registered_once_def
      gpuio_register_memory_def gpuio_unregister_memory_def release_record_def slot_def
      c_alloc_def c_free_def ctx0_def machine0_def Let_def)

text \<open>
  C7: in a context whose region chain is empty, a registration that succeeds followed by
  the unregistration of the region it returned succeeds and gives back the context as it
  was, with the chain empty again.
\<close>

theorem register_unregister_roundtrip:
  assumes "regions c = []"
    and "gpuio_register_memory ops (Some c) ptr sz acc (Some r) calloc_result m
             = (GPUIO_SUCCESS, ctx1, region1, m1)"
  shows "fst (gpuio_unregister_memory ops ctx1 region1 m1) = GPUIO_SUCCESS
       \<and> fst (snd (gpuio_unregister_memory ops ctx1 region1 m1)) = Some c
       \<and> regions (the (fst (snd (gpuio_unregister_memory ops ctx1 region1 m1)))) = []"
proof -
  from register_success_shape [OF assms(2)] obtain i r1 where
    s: "ctx1 = Some (c\<lparr>regions := (calloc_result, i) # regions c\<rparr>)" "region1 = Some r1"
       "pub_handle r1 = calloc_result" "calloc_result \<noteq> NULL" "initialized c \<noteq> 0"
    by blast
  then show ?thesis
    using assms(1) by (simp add: gpuio_unregister_memory_def Let_def)
qed

theorem register_unregister_roundtrip_witness:
  "regions ctx0 = []
   \<and> fst (gpuio_register_memory None (Some ctx0) 4096 16 0 (Some region0) 8192 machine0) = GPUIO_SUCCESS
   \<and> fst (gpuio_unregister_memory None
       (fst (snd (gpuio_register_memory None (Some ctx0) 4096 16 0 (Some region0) 8192 machine0)))
       (fst (snd (snd (gpuio_register_memory None (Some ctx0) 4096 16 0 (Some region0) 8192 machine0))))
       (snd (snd (snd (gpuio_register_memory None (Some ctx0) 4096 16 0 (Some region0) 8192 machine0)))))
     = GPUIO_SUCCESS
   \<and> fst (snd (gpuio_unregister_memory None
       (fst (snd (gpuio_register_memory None (Some ctx0) 4096 16 0 (Some region0) 8192 machine0)))
       (fst (snd (snd (gpuio_register_memory None (Some ctx0) 4096 16 0 (Some region0) 8192 machine0))))
       (snd (snd (snd (gpuio_register_memory None (Some ctx0) 4096 16 0 (Some region0) 8192 machine0))))))
     = Some ctx0"
proof -
  have e: "regions ctx0 = []" by (simp add: ctx0_def)
  have s: "fst (gpuio_register_memory None (Some ctx0) 4096 16 0 (Some region0) 8192 machine0)
             = GPUIO_SUCCESS"
    by (simp add: gpuio_register_memory_def slot_def ctx0_def)
  obtain c1 r1 m1 where
    reg: "gpuio_register_memory None (Some ctx0) 4096 16 0 (Some region0) 8192 machine0
            = (GPUIO_SUCCESS, c1, r1, m1)"
    using s by (metis prod.collapse)
  show ?thesis
    using e s register_unregister_roundtrip [OF e reg] by (simp add: reg)
qed

subsection \<open>Releasing memory\<close>

text \<open>
  Two registrations of the buffer at 4096, through the software fallback, give the
  context \<open>ctx_dup\<close>.
\<close>

lemma ctx_dup_reachable:
  "fst (snd (gpuio_register_memory None
      (fst (snd (gpuio_register_memory None (Some ctx0) 4096 16 0 (Some region0) 12288 machine0)))
      4096 16 0 (Some region0) 8192
      (snd (snd (snd (gpuio_register_memory None (Some ctx0) 4096 16 0 (Some region0) 12288 machine0))))))
   = Some ctx_dup"
  by (simp add: gpuio_register_memory_def slot_def ctx_dup_def ctx0_def region_at_def
      zero_region_def Let_def)




text \<open>
  C10: in an initialized context, \<open>gpuio_free\<close> of the null pointer returns success and
  leaves the machine, and with it every allocation, as it was; the region chain is not
  looked at (the result is the same for every chain).
\<close>

theorem free_null_ok:
  assumes "initialized c \<noteq> 0"
  shows "gpuio_free ops (Some c) NULL m = (GPUIO_SUCCESS, m)"
  using assms by (simp add: gpuio_free_def)

theorem free_null_ok_witness:
  "initialized ctx_one \<noteq> 0
   \<and> gpuio_free None (Some ctx_one) NULL machine0 = (GPUIO_SUCCESS, machine0)"
proof -
  have i: "initialized ctx_one \<noteq> 0" by (simp add: ctx_one_def ctx0_def)
  show ?thesis using i free_null_ok [OF i, of None machine0] by simp
qed

subsection \<open>Allocation and copying\<close>

text \<open>
  C8: in an initialized context, with a valid result pointer, when there is no backend
  table or the table has no device-allocation slot, \<open>gpuio_malloc_unified\<close> returns
  unsupported, writes nothing through the result pointer and leaves the machine, and
  with it the set of allocations, as it was.
\<close>

theorem malloc_unified_unsupported:
  assumes "initialized c \<noteq> 0" and "slot malloc_device ops = None"
  shows "gpuio_malloc_unified ops (Some c) sz (Some p) mmap_result m
           = (GPUIO_ERROR_UNSUPPORTED, Some p, m)"
  using assms by (simp add: gpuio_malloc_unified_def)

theorem malloc_unified_unsupported_witness:
  "slot malloc_device None = None \<and> slot malloc_device (Some empty_ops) = None
   \<and> gpuio_malloc_unified None (Some ctx0) 4096 (Some NULL) 8192 machine0
           = (GPUIO_ERROR_UNSUPPORTED, Some NULL, machine0)
   \<and> gpuio_malloc_unified (Some empty_ops) (Some ctx0) 4096 (Some NULL) 8192 machine0
           = (GPUIO_ERROR_UNSUPPORTED, Some NULL, machine0)"
proof -
  have i: "initialized ctx0 \<noteq> 0" by (simp add: ctx0_def)
  have a: "slot malloc_device None = None" by (simp add: slot_def)
  have b: "slot malloc_device (Some empty_ops) = None" by (simp add: slot_def empty_ops_def)
  show ?thesis
    using a b malloc_unified_unsupported [OF i a, of 4096 NULL 8192 machine0]
      malloc_unified_unsupported [OF i b, of 4096 NULL 8192 machine0]
    by simp
qed

text \<open>
  C9: for every context, backend table, destination, source, size, stream and machine,
  \<open>gpuio_memcpy_async\<close> returns what \<open>gpuio_memcpy\<close> returns: the same result code,
  the same context (statistics) and the same machine (memory).
\<close>

theorem memcpy_async_is_memcpy:
  "gpuio_memcpy_async ops ctx dst src sz stream m = gpuio_memcpy ops ctx dst src sz stream m"
  by (simp add: gpuio_memcpy_async_def)

lemma c_memcpy_outside:
  "(\<And>i. i < n \<Longrightarrow> a \<noteq> dst + of_nat i) \<Longrightarrow> c_memcpy n dst src b a = b a"
  by (induction n) (simp_all add: Let_def)

lemma of_nat_neq_64:
  fixes i n :: nat
  assumes "i < n" and "n < 2 ^ 64"
  shows "(of_nat i :: 64 word) \<noteq> of_nat n"
  using assms by (simp add: word_of_nat_eq_iff take_bit_nat_eq_self)

lemma c_memcpy_copies:
  assumes "n \<le> 2 ^ 64"
    and "\<And>i j. i < n \<Longrightarrow> j < n \<Longrightarrow> dst + of_nat i \<noteq> src + of_nat j"
    and "i < n"
  shows "c_memcpy n dst src b (dst + of_nat i) = b (src + of_nat i)"
  using assms
proof (induction n)
  case 0
  then show ?case by simp
next
  case (Suc n)
  have src_n: "c_memcpy n dst src b (src + of_nat n) = b (src + of_nat n)"
    by (rule c_memcpy_outside) (metis Suc.prems(2) less_Suc_eq)
  show ?case
  proof (cases "i = n")
    case True
    then show ?thesis using src_n by (simp add: Let_def)
  next
    case False
    then have lt: "i < n" using Suc.prems(3) by simp
    have "n < 2 ^ 64" using Suc.prems(1) by simp
    then have ne: "dst + of_nat i \<noteq> dst + of_nat n"
      using of_nat_neq_64 [OF lt] by simp
    have "c_memcpy n dst src b (dst + of_nat i) = b (src + of_nat i)"
      using Suc.IH Suc.prems lt by simp
    then show ?thesis using ne by (simp add: Let_def)
  qed
qed

text \<open>
  C5: in an initialized context with no backend copy function (no table, or a table
  without the slot), \<open>gpuio_memcpy\<close> with non-null destination and source returns
  success and adds the size to \<open>bytes_written\<close> (a 64-bit counter: the addition is
  modulo 2^64, as in C). For buffers valid for the C library's memcpy, that is, not
  overlapping, every one of the first \<open>size\<close> bytes of the destination afterwards is
  the byte of the source, and the source is as it was.
\<close>

theorem memcpy_software_fallback:
  assumes "initialized c \<noteq> 0" and "dst \<noteq> NULL" and "src \<noteq> NULL"
    and "slot memcpy ops = None"
    and "\<forall>i j. i < unat sz \<and> j < unat sz \<longrightarrow> dst + of_nat i \<noteq> src + of_nat j"
  shows "\<exists>c' m'. gpuio_memcpy ops (Some c) dst src sz stream m = (GPUIO_SUCCESS, Some c', m')
           \<and> bytes_written (stats c') = bytes_written (stats c) + sz
           \<and> (\<forall>i. i < unat sz \<longrightarrow> bytes m' (dst + of_nat i) = bytes m (src + of_nat i))
           \<and> (\<forall>i. i < unat sz \<longrightarrow> bytes m' (src + of_nat i) = bytes m (src + of_nat i))"
proof -
  let ?b = "c_memcpy (unat sz) dst src (bytes m)"
  have n: "unat sz \<le> 2 ^ 64"
    using unsigned_less [of sz, where ?'a = nat] by simp
  have d: "\<And>i j. i < unat sz \<Longrightarrow> j < unat sz \<Longrightarrow> dst + of_nat i \<noteq> src + of_nat j"
    using assms(5) by blast
  have copied: "?b (dst + of_nat i) = bytes m (src + of_nat i)" if "i < unat sz" for i
    using c_memcpy_copies [OF n d that] by simp
  have kept: "?b (src + of_nat j) = bytes m (src + of_nat j)" if "j < unat sz" for j
    by (rule c_memcpy_outside) (metis d that)
  have "gpuio_memcpy ops (Some c) dst src sz stream m
          = (GPUIO_SUCCESS,
             Some (c\<lparr>stats := (stats c)\<lparr>bytes_written := bytes_written (stats c) + sz\<rparr>\<rparr>),
             m\<lparr>bytes := ?b\<rparr>)"
    using assms(1-4) by (simp add: gpuio_memcpy_def Let_def)
  then show ?thesis using copied kept by simp
qed

theorem memcpy_software_fallback_witness:
  "fst (gpuio_memcpy None (Some ctx0) 4096 8192 2 NULL machine_src) = GPUIO_SUCCESS
   \<and> bytes_written (stats (the (fst (snd (gpuio_memcpy None (Some ctx0) 4096 8192 2 NULL machine_src))))) = 2
   \<and> bytes (snd (snd (gpuio_memcpy None (Some ctx0) 4096 8192 2 NULL machine_src))) 4096 = 17
   \<and> bytes (snd (snd (gpuio_memcpy None (Some ctx0) 4096 8192 2 NULL machine_src))) 4097 = 34"
proof -
  have i: "initialized ctx0 \<noteq> 0" by (simp add: ctx0_def)
  have p: "(4096 :: ptr) \<noteq> NULL" "(8192 :: ptr) \<noteq> NULL" by simp_all
  have s: "slot memcpy None = None" by (simp add: slot_def)
  have u: "unat (2 :: size_t) = Suc (Suc 0)" by simp
  have d: "\<forall>i j. i < unat (2 :: size_t) \<and> j < unat (2 :: size_t)
             \<longrightarrow> (4096 :: ptr) + of_nat i \<noteq> 8192 + of_nat j"
    unfolding u by (auto simp: less_Suc_eq)
  from memcpy_software_fallback [OF i p s d, of NULL machine_src]
  obtain c' m' where
    r: "gpuio_memcpy None (Some ctx0) 4096 8192 2 NULL machine_src = (GPUIO_SUCCESS, Some c', m')"
      and w: "bytes_written (stats c') = bytes_written (stats ctx0) + 2"
      and b: "\<forall>i. i < unat (2 :: size_t)
                \<longrightarrow> bytes m' (4096 + of_nat i) = bytes machine_src (8192 + of_nat i)"
    by blast
  have b0: "bytes m' 4096 = 17" using b [rule_format, of 0] by (simp add: machine_src_def)
  have b1: "bytes m' 4097 = 34" using b [rule_format, of 1] by (simp add: machine_src_def)
  show ?thesis using r w b0 b1 by (simp add: ctx0_def zero_stats_def)
qed

subsection \<open>Streams\<close>

lemma stream_create_success:
  assumes "gpuio_stream_create ops (Some c) (Some v) prio a ok m = (GPUIO_SUCCESS, x, y, m1)"
  shows "x = Some (c\<lparr>streams := (streams c)(num_streams c \<mapsto> a), num_streams := num_streams c + 1\<rparr>)
       \<and> y = Some a \<and> a \<noteq> NULL
       \<and> (\<exists>s. stream_objs m1 = (stream_objs m)(a \<mapsto> s) \<and> id_f s = num_streams c)"
  using assms
  by (auto simp add: gpuio_stream_create_def Let_def c_alloc_def
      split: if_splits option.splits prod.splits)

lemma create_streams_frame:
  assumes "create_streams ops reqs c m = Some (handles, c', m')"
  shows "handles = map fst reqs
       \<and> num_streams c' = num_streams c + int (length reqs)
       \<and> (\<forall>a. a \<notin> set (map fst reqs) \<longrightarrow> stream_objs m' a = stream_objs m a)
       \<and> (\<forall>i. i < num_streams c \<longrightarrow> streams c' i = streams c i)"
  using assms
proof (induction reqs arbitrary: c m handles)
  case Nil
  then show ?case by simp
next
  case (Cons req reqs)
  obtain a prio where req: "req = (a, prio)" by (cases req)
  obtain e x y m1 where
    step: "gpuio_stream_create ops (Some c) (Some NULL) prio a True m = (e, x, y, m1)"
    by (metis prod.collapse)
  from Cons.prems req step obtain c1 s hs where
    ok: "e = GPUIO_SUCCESS" "x = Some c1" "y = Some s"
      and rest: "create_streams ops reqs c1 m1 = Some (hs, c', m')"
      and hd: "handles = s # hs"
    by (auto split: option.splits if_splits prod.splits)
  from stream_create_success [OF step [unfolded ok(1)]] ok obtain r where
    c1: "c1 = c\<lparr>streams := (streams c)(num_streams c \<mapsto> a), num_streams := num_streams c + 1\<rparr>"
      and s: "s = a"
      and m1: "stream_objs m1 = (stream_objs m)(a \<mapsto> r)"
    by auto
  from Cons.IH [OF rest] have
    ih: "hs = map fst reqs" "num_streams c' = num_streams c1 + int (length reqs)"
      "\<forall>b. b \<notin> set (map fst reqs) \<longrightarrow> stream_objs m' b = stream_objs m1 b"
      "\<forall>i. i < num_streams c1 \<longrightarrow> streams c' i = streams c1 i"
    by auto
  show ?case
    using ih hd s req by (simp add: c1 m1)
qed

lemma create_streams_ids:
  assumes "create_streams ops reqs c m = Some (handles, c', m')"
    and "distinct (map fst reqs)"
    and "k < length reqs"
  shows "map_option id_f (stream_objs m' (handles ! k)) = Some (num_streams c + int k)
       \<and> streams c' (num_streams c + int k) = Some (handles ! k)"
  using assms
proof (induction reqs arbitrary: c m handles k)
  case Nil
  then show ?case by simp
next
  case (Cons req reqs)
  obtain a prio where req: "req = (a, prio)" by (cases req)
  obtain e x y m1 where
    step: "gpuio_stream_create ops (Some c) (Some NULL) prio a True m = (e, x, y, m1)"
    by (metis prod.collapse)
  from Cons.prems(1) req step obtain c1 s hs where
    ok: "e = GPUIO_SUCCESS" "x = Some c1" "y = Some s"
      and rest: "create_streams ops reqs c1 m1 = Some (hs, c', m')"
      and hd: "handles = s # hs"
    by (auto split: option.splits if_splits prod.splits)
  from stream_create_success [OF step [unfolded ok(1)]] ok obtain r where
    c1: "c1 = c\<lparr>streams := (streams c)(num_streams c \<mapsto> a), num_streams := num_streams c + 1\<rparr>"
      and s: "s = a"
      and m1: "stream_objs m1 = (stream_objs m)(a \<mapsto> r)"
      and r: "id_f r = num_streams c"
    by auto
  note fr = create_streams_frame [OF rest]
  show ?case
  proof (cases k)
    case 0
    have "a \<notin> set (map fst reqs)" using Cons.prems(2) req by simp
    then have "stream_objs m' a = Some r" using fr m1 by simp
    moreover have "streams c' (num_streams c) = Some a" using fr by (simp add: c1)
    ultimately show ?thesis using 0 hd s r by simp
  next
    case (Suc j)
    then have j: "j < length reqs" using Cons.prems(3) by simp
    have d: "distinct (map fst reqs)" using Cons.prems(2) by simp
    from Cons.IH [OF rest d j] show ?thesis
      using Suc hd by (simp add: c1 add.commute add.left_commute)
  qed
qed

lemma stream_destroy_frame:
  "t \<noteq> stream \<Longrightarrow> stream_objs (snd (gpuio_stream_destroy X ops ctx stream m)) t = stream_objs m t"
  by (simp add: gpuio_stream_destroy_def Let_def c_free_def)

text \<open>
  C6: when N streams are created one after the other in a context (the creations all
  succeeding, the allocator giving each record an address of its own, and the count
  staying within a C int), the k-th of them has id \<open>num_streams + k\<close>, where
  \<open>num_streams\<close> is the count before the first creation, and that is its index in the
  array of the context; in a context that had no stream the ids are 0 .. N-1. Destroying
  one of the streams leaves the id of every other one as it was (the array itself is
  not written by \<open>gpuio_stream_destroy\<close>).
\<close>

theorem stream_ids_stable:
  assumes "create_streams ops reqs c m = Some (handles, c', m')"
    and "distinct (map fst reqs)"
    and "num_streams c + int (length reqs) \<le> 2147483647"
  shows "(\<forall>k < length reqs.
            map_option id_f (stream_objs m' (handles ! k)) = Some (num_streams c + int k)
            \<and> streams c' (num_streams c + int k) = Some (handles ! k))
       \<and> (num_streams c = 0 \<longrightarrow>
            (\<forall>k < length reqs. map_option id_f (stream_objs m' (handles ! k)) = Some (int k)))
       \<and> (\<forall>k < length reqs. \<forall>j < length reqs. j \<noteq> k \<longrightarrow>
            map_option id_f
              (stream_objs (snd (gpuio_stream_destroy X ops (Some c') (handles ! k) m')) (handles ! j))
            = Some (num_streams c + int j))"
proof -
  have ids: "map_option id_f (stream_objs m' (handles ! k)) = Some (num_streams c + int k)
             \<and> streams c' (num_streams c + int k) = Some (handles ! k)"
    if "k < length reqs" for k
    using create_streams_ids [OF assms(1,2) that] .
  have hs: "handles = map fst reqs"
    using create_streams_frame [OF assms(1)] by simp
  have other: "handles ! j \<noteq> handles ! k"
    if "k < length reqs" "j < length reqs" "j \<noteq> k" for j k
  proof -
    have "distinct handles" "length handles = length reqs"
      using assms(2) hs by simp_all
    then show ?thesis using that by (simp add: nth_eq_iff_index_eq)
  qed
  have kept: "map_option id_f
                (stream_objs (snd (gpuio_stream_destroy X ops (Some c') (handles ! k) m')) (handles ! j))
              = Some (num_streams c + int j)"
    if "k < length reqs" "j < length reqs" "j \<noteq> k" for j k
    using stream_destroy_frame [OF other [OF that]] ids [OF that(2)] by simp
  have zero: "map_option id_f (stream_objs m' (handles ! k)) = Some (int k)"
    if "num_streams c = 0" "k < length reqs" for k
    using ids [OF that(2)] that(1) by simp
  show ?thesis
    using ids kept zero by blast
qed

lemma three_streams_created: "\<exists>c' m'. three_streams = Some ([8192, 12288, 16384], c', m')"
  by (simp add: three_streams_def gpuio_stream_create_def slot_def ctx0_def Let_def c_alloc_def)

theorem stream_ids_stable_witness:
  "fst (the three_streams) = [8192, 12288, 16384]
   \<and> map_option id_f (stream_objs (snd (snd (the three_streams))) 8192) = Some 0
   \<and> map_option id_f (stream_objs (snd (snd (the three_streams))) 12288) = Some 1
   \<and> map_option id_f (stream_objs (snd (snd (the three_streams))) 16384) = Some 2
   \<and> map_option id_f (stream_objs (snd (gpuio_stream_destroy GPUIO_SUCCESS None
        (Some (fst (snd (the three_streams)))) 12288 (snd (snd (the three_streams))))) 8192) = Some 0
   \<and> map_option id_f (stream_objs (snd (gpuio_stream_destroy GPUIO_SUCCESS None
        (Some (fst (snd (the three_streams)))) 12288 (snd (snd (the three_streams))))) 16384) = Some 2"
proof -
  obtain c' m' where t: "three_streams = Some ([8192, 12288, 16384], c', m')"
    using three_streams_created by blast
  have d: "distinct (map fst [(8192 :: ptr, 0 :: int), (12288, 1), (16384, 0)])" by simp
  have b: "num_streams ctx0 + int (length [(8192 :: ptr, 0 :: int), (12288, 1), (16384, 0)])
             \<le> 2147483647"
    by (simp add: ctx0_def)
  have z: "num_streams ctx0 = 0" by (simp add: ctx0_def)
  note th = stream_ids_stable [OF t [unfolded three_streams_def] d b, of GPUIO_SUCCESS]
  have i0: "map_option id_f (stream_objs m' 8192) = Some 0"
    using th [THEN conjunct1, rule_format, of 0] z by simp
  have i1: "map_option id_f (stream_objs m' 12288) = Some 1"
    using th [THEN conjunct1, rule_format, of 1] z by simp
  have i2: "map_option id_f (stream_objs m' 16384) = Some 2"
    using th [THEN conjunct1, rule_format, of 2] z by simp
  have k0: "map_option id_f (stream_objs (snd (gpuio_stream_destroy GPUIO_SUCCESS None
              (Some c') 12288 m')) 8192) = Some 0"
    using th [THEN conjunct2, THEN conjunct2, rule_format, of 1 0] z by simp
  have k2: "map_option id_f (stream_objs (snd (gpuio_stream_destroy GPUIO_SUCCESS None
              (Some c') 12288 m')) 16384) = Some 2"
    using th [THEN conjunct2, THEN conjunct2, rule_format, of 1 2] z by simp
  show ?thesis using i0 i1 i2 k0 k2 by (simp add: t)
qed

subsection \<open>Argument and state checks\<close>

lemmas api_defs =
  gpuio_malloc_def gpuio_malloc_pinned_def gpuio_malloc_device_def gpuio_malloc_unified_def
  gpuio_free_def gpuio_register_memory_def gpuio_unregister_memory_def gpuio_memcpy_def
  gpuio_memcpy_async_def gpuio_stream_create_def gpuio_stream_destroy_def
  gpuio_stream_synchronize_def gpuio_stream_query_def gpuio_event_create_def
  gpuio_event_destroy_def gpuio_event_record_def gpuio_event_synchronize_def
  gpuio_event_elapsed_time_def gpuio_get_stats_def gpuio_reset_stats_def

text \<open>
  C3, as stated, fails: the operations that test another pointer in the same condition
  as the context return invalid-argument, not not-initialized, when the context is
  non-null and uninitialized and that pointer is null. Here \<open>gpuio_malloc\<close> with a
  null result pointer.
\<close>

theorem uninit_null_pointer_counterexample:
  "gpuio_malloc (Some ctx_uninit) 16 None 4096 machine0 = (GPUIO_ERROR_INVALID_ARG, None, machine0)"
  by (simp add: gpuio_malloc_def)

text \<open>
  C3, amended: every public operation of memory.c, stream.c and the statistics returns
  invalid-argument for a null context. For a non-null context that is not initialized,
  \<open>gpuio_free\<close>, \<open>gpuio_memcpy\<close>, \<open>gpuio_memcpy_async\<close>,
  \<open>gpuio_stream_synchronize\<close> and \<open>gpuio_reset_stats\<close> return not-initialized;
  each other operation returns invalid-argument when a pointer it tests together with
  the context is null (the result pointer of the four allocators, of stream and event
  creation, of the stream query, of the elapsed time and of the statistics; the region
  of registration and unregistration; the stream and event handles of destroy, query,
  record, synchronize and elapsed time), and not-initialized otherwise. In all these
  cases the context, the caller's structures and the machine come back as they were.
\<close>

theorem guards_first:
  assumes "initialized c = 0"
  shows
    "(gpuio_malloc None sz ptr malloc_result m = (GPUIO_ERROR_INVALID_ARG, ptr, m)
      \<and> gpuio_malloc_pinned ops None sz ptr mmap_result m = (GPUIO_ERROR_INVALID_ARG, ptr, m)
      \<and> gpuio_malloc_device ops None sz ptr mmap_result m = (GPUIO_ERROR_INVALID_ARG, ptr, m)
      \<and> gpuio_malloc_unified ops None sz ptr mmap_result m = (GPUIO_ERROR_INVALID_ARG, ptr, m)
      \<and> gpuio_free ops None p m = (GPUIO_ERROR_INVALID_ARG, m)
      \<and> gpuio_register_memory ops None p sz acc region calloc_result m
          = (GPUIO_ERROR_INVALID_ARG, None, region, m)
      \<and> gpuio_unregister_memory ops None region m = (GPUIO_ERROR_INVALID_ARG, None, region, m)
      \<and> gpuio_memcpy ops None dst src sz stream m = (GPUIO_ERROR_INVALID_ARG, None, m)
      \<and> gpuio_memcpy_async ops None dst src sz stream m = (GPUIO_ERROR_INVALID_ARG, None, m)
      \<and> gpuio_stream_create ops None stream_out prio calloc_result realloc_ok m
          = (GPUIO_ERROR_INVALID_ARG, None, stream_out, m)
      \<and> gpuio_stream_destroy X ops None stream m = (GPUIO_ERROR_INVALID_ARG, m)
      \<and> gpuio_stream_synchronize ops None stream m = GPUIO_ERROR_INVALID_ARG
      \<and> gpuio_stream_query ops None stream idle m = (GPUIO_ERROR_INVALID_ARG, idle)
      \<and> gpuio_event_create ops None event_out calloc_result m = (GPUIO_ERROR_INVALID_ARG, event_out, m)
      \<and> gpuio_event_destroy ops None event m = (GPUIO_ERROR_INVALID_ARG, m)
      \<and> gpuio_event_record ops None event stream m = GPUIO_ERROR_INVALID_ARG
      \<and> gpuio_event_synchronize ops None event = GPUIO_ERROR_INVALID_ARG
      \<and> gpuio_event_elapsed_time ops None start end_ev ms = (GPUIO_ERROR_INVALID_ARG, ms)
      \<and> gpuio_get_stats None stats_out = (GPUIO_ERROR_INVALID_ARG, stats_out)
      \<and> gpuio_reset_stats None = (GPUIO_ERROR_INVALID_ARG, None))
   \<and> (gpuio_free ops (Some c) p m = (GPUIO_ERROR_NOT_INITIALIZED, m)
      \<and> gpuio_memcpy ops (Some c) dst src sz stream m = (GPUIO_ERROR_NOT_INITIALIZED, Some c, m)
      \<and> gpuio_memcpy_async ops (Some c) dst src sz stream m = (GPUIO_ERROR_NOT_INITIALIZED, Some c, m)
      \<and> gpuio_stream_synchronize ops (Some c) stream m = GPUIO_ERROR_NOT_INITIALIZED
      \<and> gpuio_reset_stats (Some c) = (GPUIO_ERROR_NOT_INITIALIZED, Some c))
   \<and> (gpuio_malloc (Some c) sz ptr malloc_result m
          = (if ptr = None then GPUIO_ERROR_INVALID_ARG else GPUIO_ERROR_NOT_INITIALIZED, ptr, m)
      \<and> gpuio_malloc_pinned ops (Some c) sz ptr mmap_result m
          = (if ptr = None then GPUIO_ERROR_INVALID_ARG else GPUIO_ERROR_NOT_INITIALIZED, ptr, m)
      \<and> gpuio_malloc_device ops (Some c) sz ptr mmap_result m
          = (if ptr = None then GPUIO_ERROR_INVALID_ARG else GPUIO_ERROR_NOT_INITIALIZED, ptr, m)
      \<and> gpuio_malloc_unified ops (Some c) sz ptr mmap_result m
          = (if ptr = None then GPUIO_ERROR_INVALID_ARG else GPUIO_ERROR_NOT_INITIALIZED, ptr, m)
      \<and> gpuio_register_memory ops (Some c) p sz acc region calloc_result m
          = (if region = None then GPUIO_ERROR_INVALID_ARG else GPUIO_ERROR_NOT_INITIALIZED,
             Some c, region, m)
      \<and> gpuio_unregister_memory ops (Some c) region m
          = (if region = None then GPUIO_ERROR_INVALID_ARG else GPUIO_ERROR_NOT_INITIALIZED,
             Some c, region, m)
      \<and> gpuio_stream_create ops (Some c) stream_out prio calloc_result realloc_ok m
          = (if stream_out = None then GPUIO_ERROR_INVALID_ARG else GPUIO_ERROR_NOT_INITIALIZED,
             Some c, stream_out, m)
      \<and> gpuio_stream_destroy X ops (Some c) stream m
          = (if stream = NULL then GPUIO_ERROR_INVALID_ARG else GPUIO_ERROR_NOT_INITIALIZED, m)
      \<and> gpuio_stream_query ops (Some c) stream idle m
          = (if stream = NULL \<or> idle = None then GPUIO_ERROR_INVALID_ARG
             else GPUIO_ERROR_NOT_INITIALIZED, idle)
      \<and> gpuio_event_create ops (Some c) event_out calloc_result m
          = (if event_out = None then GPUIO_ERROR_INVALID_ARG else GPUIO_ERROR_NOT_INITIALIZED,
             event_out, m)
      \<and> gpuio_event_destroy ops (Some c) event m
          = (if event = NULL then GPUIO_ERROR_INVALID_ARG else GPUIO_ERROR_NOT_INITIALIZED, m)
      \<and> gpuio_event_record ops (Some c) event stream m
          = (if event = NULL \<or> stream = NULL then GPUIO_ERROR_INVALID_ARG
             else GPUIO_ERROR_NOT_INITIALIZED)
      \<and> gpuio_event_synchronize ops (Some c) event
          = (if event = NULL then GPUIO_ERROR_INVALID_ARG else GPUIO_ERROR_NOT_INITIALIZED)
      \<and> gpuio_event_elapsed_time ops (Some c) start end_ev ms
          = (if start = NULL \<or> end_ev = NULL \<or> ms = None then GPUIO_ERROR_INVALID_ARG
             else GPUIO_ERROR_NOT_INITIALIZED, ms)
      \<and> gpuio_get_stats (Some c) stats_out
          = (if stats_out = None then GPUIO_ERROR_INVALID_ARG else GPUIO_ERROR_NOT_INITIALIZED,
             stats_out))"
  using assms by (simp add: api_defs)

theorem guards_first_witness:
  "gpuio_free None None 4096 machine0 = (GPUIO_ERROR_INVALID_ARG, machine0)
   \<and> gpuio_free None (Some ctx_uninit) 4096 machine0 = (GPUIO_ERROR_NOT_INITIALIZED, machine0)
   \<and> gpuio_malloc (Some ctx_uninit) 16 (Some NULL) 4096 machine0
       = (GPUIO_ERROR_NOT_INITIALIZED, Some NULL, machine0)
   \<and> gpuio_register_memory None (Some ctx_uninit) 4096 16 0 (Some region0) 8192 machine0
       = (GPUIO_ERROR_NOT_INITIALIZED, Some ctx_uninit, Some region0, machine0)
   \<and> gpuio_stream_create None (Some ctx_uninit) (Some NULL) 0 8192 True machine0
       = (GPUIO_ERROR_NOT_INITIALIZED, Some ctx_uninit, Some NULL, machine0)
   \<and> gpuio_stream_destroy GPUIO_SUCCESS None (Some ctx_uninit) 8192 machine0
       = (GPUIO_ERROR_NOT_INITIALIZED, machine0)
   \<and> gpuio_event_synchronize None (Some ctx_uninit) NULL = GPUIO_ERROR_INVALID_ARG
   \<and> gpuio_reset_stats (Some ctx_uninit) = (GPUIO_ERROR_NOT_INITIALIZED, Some ctx_uninit)"
proof -
  have u: "initialized ctx_uninit = 0" by (simp add: ctx_uninit_def)
  show ?thesis
    using guards_first [OF u, where sz = 16 and ptr = "Some NULL" and malloc_result = 4096
        and m = machine0 and ops = None and mmap_result = 4096 and p = 4096 and acc = 0
        and region = "Some region0" and calloc_result = 8192 and dst = 4096 and src = 8192
        and stream = 8192 and stream_out = "Some NULL" and prio = 0 and realloc_ok = True
        and X = GPUIO_SUCCESS and idle = "Some False" and event_out = "Some NULL"
        and event = NULL and start = 4096 and end_ev = 4096 and ms = "Some 0"
        and stats_out = "Some zero_stats"]
    by simp
qed

end
